theory Spec2Isabelle
  imports Main "HOL-Library.Multiset" "HOL-Library.Sublist"
begin

section \<open>JavaScript values of the request bodies\<close>

text \<open>
  A field of a parsed JSON body is absent (\<open>undefined\<close> after destructuring), \<open>null\<close>,
  a boolean, a number, a string, or an array or object. Numbers are the integral ones;
  an array or object carries the text that the database driver binds for it.
\<close>

datatype jsval = JUndefined | JNull | JBool bool | JNum int | JStr string | JObj string

text \<open>JavaScript truthiness: what \<open>!v\<close> and \<open>if (v)\<close> test.\<close>

fun truthy :: "jsval \<Rightarrow> bool" where
  "truthy JUndefined = False"
| "truthy JNull = False"
| "truthy (JBool b) = b"
| "truthy (JNum n) = (n \<noteq> 0)"
| "truthy (JStr s) = (s \<noteq> [])"
| "truthy (JObj t) = True"

text \<open>\<open>a || b\<close>.\<close>

definition js_or :: "jsval \<Rightarrow> jsval \<Rightarrow> jsval" where
  "js_or a b = (if truthy a then a else b)"

text \<open>
  A query parameter and an environment variable are absent or a string; \<open>qtruthy\<close> is
  truthiness on those.
\<close>

fun qtruthy :: "string option \<Rightarrow> bool" where
  "qtruthy None = False"
| "qtruthy (Some s) = (s \<noteq> [])"

section \<open>The books table\<close>

text \<open>
  The table of \<open>server.js\<close>, lines 31-38: an integer primary key with AUTOINCREMENT and
  five TEXT columns, two of them NOT NULL. A cell of a TEXT column is NULL (\<open>None\<close>) or a
  text. The rows are kept in rowid order, the order in which a scan of the table yields
  them; \<open>seq\<close> is the largest rowid ever handed out (the table's entry in
  \<open>sqlite_sequence\<close>).
\<close>

type_synonym cell = "string option"

record row =
  id_col :: int
  title_col :: cell
  author_col :: cell
  status_col :: cell
  notes_col :: cell
  coverImageUrl_col :: cell

record db =
  books :: "row list"
  seq :: int

definition empty_db :: db where
  "empty_db = \<lparr>books = [], seq = 0\<rparr>"

text \<open>Decimal text of an integer, as a TEXT column stores a number.\<close>

definition digit_char :: "nat \<Rightarrow> char" where
  "digit_char k = char_of (48 + k)"

function dec_nat :: "nat \<Rightarrow> string" where
  "dec_nat n = (if n < 10 then [digit_char n] else dec_nat (n div 10) @ [digit_char (n mod 10)])"
  by pat_completeness auto
termination
  by (relation "measure (\<lambda>n. n)") auto

declare dec_nat.simps [simp del]

definition dec_int :: "int \<Rightarrow> string" where
  "dec_int i = (if i < 0 then CHR ''-'' # dec_nat (nat (- i)) else dec_nat (nat i))"

text \<open>
  What a statement parameter stores in, or compares as against, a TEXT column: the driver
  leaves \<open>undefined\<close> unbound and binds \<open>null\<close> as NULL, a boolean as the integer 1 or
  0 and a number as a number, which the column's TEXT affinity turns into text.
\<close>

fun bind_text :: "jsval \<Rightarrow> cell" where
  "bind_text JUndefined = None"
| "bind_text JNull = None"
| "bind_text (JBool b) = Some (if b then ''1'' else ''0'')"
| "bind_text (JNum n) = Some (dec_int n)"
| "bind_text (JStr s) = Some s"
| "bind_text (JObj t) = Some t"

subsection \<open>The four statements\<close>

text \<open>
  \<open>INSERT INTO books (title, author, status, notes, coverImageUrl) VALUES (?, ?, ?, ?, ?)\<close>.
  AUTOINCREMENT gives the row one more than the largest rowid the table has ever held, so
  the row comes last in rowid order. The result is \<open>lastID\<close> and the new table, or the
  error of a NOT NULL column. A statement fails only by a constraint of the table: a
  failure of the database file is outside the model.
\<close>

definition next_rowid :: "db \<Rightarrow> int" where
  "next_rowid d = fold max (map id_col (books d)) (seq d) + 1"

definition sql_insert :: "cell \<Rightarrow> cell \<Rightarrow> cell \<Rightarrow> cell \<Rightarrow> cell \<Rightarrow> db \<Rightarrow> string + (int \<times> db)" where
  "sql_insert t a s n c d =
     (if t = None then Inl ''SQLITE_CONSTRAINT: NOT NULL constraint failed: books.title''
      else if s = None then Inl ''SQLITE_CONSTRAINT: NOT NULL constraint failed: books.status''
      else let k = next_rowid d in
        Inr (k, \<lparr>books = books d @
                   [\<lparr>id_col = k, title_col = t, author_col = a, status_col = s,
                     notes_col = n, coverImageUrl_col = c\<rparr>],
                 seq = k\<rparr>))"

text \<open>
  \<open>WHERE id = ?\<close> with the path segment of the URL, a text, as parameter: the INTEGER
  column makes SQLite read the text as a number before comparing. That reading is the
  parameter \<open>conv\<close> of the model (\<open>None\<close> when the text is no integer).
\<close>

definition id_matches :: "(string \<Rightarrow> int option) \<Rightarrow> string \<Rightarrow> row \<Rightarrow> bool" where
  "id_matches conv p r = (conv p = Some (id_col r))"

datatype column = Title | Author | Status | Notes | CoverImageUrl

fun set_col :: "column \<times> cell \<Rightarrow> row \<Rightarrow> row" where
  "set_col (Title, v) r = r\<lparr>title_col := v\<rparr>"
| "set_col (Author, v) r = r\<lparr>author_col := v\<rparr>"
| "set_col (Status, v) r = r\<lparr>status_col := v\<rparr>"
| "set_col (Notes, v) r = r\<lparr>notes_col := v\<rparr>"
| "set_col (CoverImageUrl, v) r = r\<lparr>coverImageUrl_col := v\<rparr>"

text \<open>
  \<open>UPDATE books SET c1 = ?, ... WHERE id = ?\<close>. The NOT NULL columns are checked on a
  row that is about to change, for the columns the statement assigns; a failed statement
  changes nothing. The result is \<open>changes\<close>, the number of rows matched, and the new
  table.
\<close>

definition sql_update ::
  "(string \<Rightarrow> int option) \<Rightarrow> (column \<times> cell) list \<Rightarrow> string \<Rightarrow> db \<Rightarrow> string + (nat \<times> db)" where
  "sql_update conv sets p d =
     (let n = length (filter (id_matches conv p) (books d)) in
      if 0 < n \<and> (Title, None) \<in> set sets
        then Inl ''SQLITE_CONSTRAINT: NOT NULL constraint failed: books.title''
      else if 0 < n \<and> (Status, None) \<in> set sets
        then Inl ''SQLITE_CONSTRAINT: NOT NULL constraint failed: books.status''
      else Inr (n, d\<lparr>books :=
                     map (\<lambda>r. if id_matches conv p r then fold set_col sets r else r) (books d)\<rparr>))"

text \<open>\<open>DELETE FROM books WHERE id = ?\<close>.\<close>

definition sql_delete :: "(string \<Rightarrow> int option) \<Rightarrow> string \<Rightarrow> db \<Rightarrow> string + (nat \<times> db)" where
  "sql_delete conv p d =
     Inr (length (filter (id_matches conv p) (books d)),
          d\<lparr>books := filter (\<lambda>r. \<not> id_matches conv p r) (books d)\<rparr>)"

text \<open>\<open>SELECT * FROM books\<close> and \<open>SELECT * FROM books WHERE status = ?\<close>: a scan in rowid order.\<close>

definition sql_select_all :: "db \<Rightarrow> string + row list" where
  "sql_select_all d = Inr (books d)"

definition sql_select_status :: "string \<Rightarrow> db \<Rightarrow> string + row list" where
  "sql_select_status s d = Inr (filter (\<lambda>r. status_col r = Some s) (books d))"

section \<open>The handlers of the books resource\<close>

text \<open>The five fields a handler destructures from \<open>req.body\<close>.\<close>

record book_fields =
  title :: jsval
  author :: jsval
  status :: jsval
  "notes" :: jsval
  coverImageUrl :: jsval

text \<open>A result of the search proxy (lines 182-188).\<close>

record search_result =
  res_title :: jsval
  res_author :: string
  res_coverImageUrl :: jsval
  res_description :: jsval

text \<open>
  The JSON bodies the handlers send: \<open>{error}\<close>, \<open>{message}\<close>, \<open>{message, id}\<close>, the rows
  of a list, the created book \<open>{id, title, author, status, notes, coverImageUrl}\<close>, and the
  search results. A response is the HTTP status with the body.
\<close>

datatype body =
    Error string
  | Message string
  | MessageId string string
  | Rows "row list"
  | Created int book_fields
  | Results "search_result list"

type_synonym response = "nat \<times> body"

text \<open>\<open>app.get('/books')\<close>, lines 61-78.\<close>

definition get_books :: "string option \<Rightarrow> db \<Rightarrow> response \<times> db" where
  "get_books statusFilter d =
     (case (if qtruthy statusFilter then sql_select_status (the statusFilter) d
            else sql_select_all d) of
        Inl err \<Rightarrow> ((500, Error err), d)
      | Inr rows \<Rightarrow> ((200, Rows rows), d))"

text \<open>\<open>app.post('/books')\<close>, lines 81-100.\<close>

definition post_books :: "book_fields \<Rightarrow> db \<Rightarrow> response \<times> db" where
  "post_books b d =
     (if \<not> truthy (title b) \<or> \<not> truthy (status b)
        then ((400, Error ''Title and Status are required.''), d)
      else case sql_insert (bind_text (title b)) (bind_text (author b)) (bind_text (status b))
                  (bind_text (notes b)) (bind_text (coverImageUrl b)) d of
          Inl err \<Rightarrow> ((500, Error err), d)
        | Inr (lastID, d') \<Rightarrow> ((201, Created lastID b), d'))"

text \<open>
  \<open>app.put('/books/:id')\<close>, lines 103-135. \<open>put_updates\<close> is the pair of arrays
  \<open>updates\<close> and \<open>params\<close>, built field by field.
\<close>

definition put_updates :: "book_fields \<Rightarrow> (column \<times> jsval) list" where
  "put_updates b =
     (if title b \<noteq> JUndefined then [(Title, title b)] else []) @
     (if author b \<noteq> JUndefined then [(Author, author b)] else []) @
     (if status b \<noteq> JUndefined then [(Status, status b)] else []) @
     (if notes b \<noteq> JUndefined then [(Notes, notes b)] else []) @
     (if coverImageUrl b \<noteq> JUndefined then [(CoverImageUrl, coverImageUrl b)] else [])"

definition put_books :: "(string \<Rightarrow> int option) \<Rightarrow> string \<Rightarrow> book_fields \<Rightarrow> db \<Rightarrow> response \<times> db" where
  "put_books conv p b d =
     (let updates = put_updates b in
      if length updates = 0 then ((400, Error ''No fields provided for update.''), d)
      else case sql_update conv (map (\<lambda>(c, v). (c, bind_text v)) updates) p d of
          Inl err \<Rightarrow> ((500, Error err), d)
        | Inr (changes, d') \<Rightarrow>
            if changes = 0 then ((404, Message ''Book not found.''), d')
            else ((200, MessageId ''Book updated successfully.'' p), d'))"

text \<open>\<open>app.delete('/books/:id')\<close>, lines 138-152.\<close>

definition delete_books :: "(string \<Rightarrow> int option) \<Rightarrow> string \<Rightarrow> db \<Rightarrow> response \<times> db" where
  "delete_books conv p d =
     (case sql_delete conv p d of
        Inl err \<Rightarrow> ((500, Error err), d)
      | Inr (changes, d') \<Rightarrow>
          if changes = 0 then ((404, Message ''Book not found.''), d')
          else ((200, MessageId ''Book deleted successfully.'' p), d'))"

text \<open>
  A request to the books resource, and the server handling a sequence of them one after
  the other from a given table. \<open>inserted\<close> lists the ids that the successful creations
  of the sequence returned, in the order of the requests.
\<close>

datatype request =
    GetBooks "string option"
  | PostBooks book_fields
  | PutBooks string book_fields
  | DeleteBooks string

fun handle :: "(string \<Rightarrow> int option) \<Rightarrow> request \<Rightarrow> db \<Rightarrow> response \<times> db" where
  "handle conv (GetBooks statusFilter) d = get_books statusFilter d"
| "handle conv (PostBooks b) d = post_books b d"
| "handle conv (PutBooks p b) d = put_books conv p b d"
| "handle conv (DeleteBooks p) d = delete_books conv p d"

fun serve :: "(string \<Rightarrow> int option) \<Rightarrow> request list \<Rightarrow> db \<Rightarrow> db" where
  "serve conv [] d = d"
| "serve conv (req # reqs) d = serve conv reqs (snd (handle conv req d))"

fun created_id :: "response \<Rightarrow> int list" where
  "created_id (code, Created k b) = [k]"
| "created_id (code, other) = []"

fun inserted :: "(string \<Rightarrow> int option) \<Rightarrow> request list \<Rightarrow> db \<Rightarrow> int list" where
  "inserted conv [] d = []"
| "inserted conv (req # reqs) d =
     created_id (fst (handle conv req d)) @ inserted conv reqs (snd (handle conv req d))"

section \<open>The search proxy\<close>

text \<open>
  The answer of the catalogue, as far as the handler reads it: \<open>data.items\<close>, and of an
  item \<open>volumeInfo\<close> with \<open>title\<close>, \<open>authors\<close>, \<open>imageLinks\<close> and \<open>description\<close>.
  An absent object or array is \<open>None\<close>; a scalar is a \<open>jsval\<close>.
\<close>

record image_links =
  thumbnail :: jsval
  smallThumbnail :: jsval

record volume_info =
  info_title :: jsval
  info_authors :: "string list option"
  info_imageLinks :: "image_links option"
  info_description :: jsval

record item =
  volumeInfo :: "volume_info option"

record volumes =
  items :: "item list option"

text \<open>
  What \<open>await fetch(url)\<close> gives: a rejection, or a response with its status, its status
  text and its body, \<open>None\<close> when the body is no JSON (\<open>response.json()\<close> rejects).
  \<open>response.ok\<close> is a status from 200 to 299.
\<close>

record upstream_response =
  resp_status :: nat
  resp_statusText :: string
  resp_json :: "volumes option"

datatype fetch_result = Rejected string | Resolved upstream_response

definition ok :: "upstream_response \<Rightarrow> bool" where
  "ok r = (200 \<le> resp_status r \<and> resp_status r < 300)"

text \<open>\<open>Array.prototype.join\<close> on strings.\<close>

fun join :: "string \<Rightarrow> string list \<Rightarrow> string" where
  "join sep [] = []"
| "join sep [x] = x"
| "join sep (x # y # ys) = x @ sep @ join sep (y # ys)"

text \<open>
  The arrow function of lines 182-188: \<open>map_info\<close> is its object literal for the
  \<open>volumeInfo\<close> of the item. Reading \<open>item.volumeInfo.title\<close> of an item without
  \<open>volumeInfo\<close> throws a TypeError: the result \<open>None\<close>.
\<close>

definition map_info :: "volume_info \<Rightarrow> search_result" where
  "map_info v =
     \<lparr>res_title = js_or (info_title v) (JStr ''N/A''),
      res_author = (case info_authors v of Some a \<Rightarrow> join '', '' a | None \<Rightarrow> ''N/A''),
      res_coverImageUrl =
        (case info_imageLinks v of
           Some l \<Rightarrow> js_or (thumbnail l) (smallThumbnail l)
         | None \<Rightarrow> JNull),
      res_description = js_or (info_description v) (JStr ''No description available.'')\<rparr>"

definition map_item :: "item \<Rightarrow> search_result option" where
  "map_item it = (case volumeInfo it of None \<Rightarrow> None | Some v \<Rightarrow> Some (map_info v))"

text \<open>\<open>data.items.map(...)\<close>, which the first throw ends.\<close>

fun map_items :: "item list \<Rightarrow> search_result list option" where
  "map_items [] = Some []"
| "map_items (it # its) =
     (case map_item it of
        None \<Rightarrow> None
      | Some b \<Rightarrow> (case map_items its of None \<Rightarrow> None | Some bs \<Rightarrow> Some (b # bs)))"

text \<open>
  The URL of line 168; \<open>enc\<close> stands for \<open>encodeURIComponent\<close>.
\<close>

definition googleBooksApiUrl :: "(string \<Rightarrow> string) \<Rightarrow> string \<Rightarrow> string \<Rightarrow> string" where
  "googleBooksApiUrl enc query key =
     ''https://www.googleapis.com/books/v1/volumes?q='' @ enc query @ ''&key='' @ key @
     ''&maxResults=5''"

text \<open>
  \<open>app.get('/search-books')\<close>, lines 156-195. The parameters are \<open>encodeURIComponent\<close>,
  the outcome of \<open>fetch\<close> for each URL, the value of \<open>GOOGLE_BOOKS_API_KEY\<close> and
  \<open>req.query.q\<close>. Every throw inside \<open>try\<close> ends in the \<open>catch\<close> of line 191;
  reading the body of a refusal as text (line 174) does not throw.
\<close>

definition search_failed :: response where
  "search_failed =
     (500, Error ''Failed to search books from external API. Check server console for details.'')"

definition search_books ::
  "(string \<Rightarrow> string) \<Rightarrow> (string \<Rightarrow> fetch_result) \<Rightarrow> string option \<Rightarrow> string option \<Rightarrow> db
     \<Rightarrow> response \<times> db" where
  "search_books enc fetch key query d =
     (if \<not> qtruthy query then ((400, Error ''Search query (q) is required.''), d)
      else if \<not> qtruthy key then
        ((500, Error (''Google Books API key is not configured on the server. '' @
                      ''Please check backend setup.'')), d)
      else case fetch (googleBooksApiUrl enc (the query) (the key)) of
          Rejected msg \<Rightarrow> (search_failed, d)
        | Resolved response \<Rightarrow>
            if \<not> ok response then
              ((resp_status response,
                Error (''Google Books API error: '' @ resp_statusText response @
                       ''. Check server console for details.'')), d)
            else (case resp_json response of
                None \<Rightarrow> (search_failed, d)
              | Some data \<Rightarrow>
                  (case items data of
                     None \<Rightarrow> ((200, Results []), d)
                   | Some its \<Rightarrow>
                       (case map_items its of
                          None \<Rightarrow> (search_failed, d)
                        | Some bs \<Rightarrow> ((200, Results bs), d)))))"

section \<open>The client's view of the collection\<close>

text \<open>
  A book of the client's cached collection: the fields of a book with its id, as the
  server sent them. \<open>categorizedBooks\<close> is the object of \<open>App.jsx\<close>, lines 187-191,
  with its three keys.
\<close>

record book = book_fields +
  book_id :: jsval

record categorized =
  want_to_read :: "book list"
  reading :: "book list"
  finished :: "book list"

definition categorizedBooks :: "book list \<Rightarrow> categorized" where
  "categorizedBooks bs =
     \<lparr>want_to_read = filter (\<lambda>book. status book = JStr ''Want to Read'') bs,
      reading = filter (\<lambda>book. status book = JStr ''Reading'') bs,
      finished = filter (\<lambda>book. status book = JStr ''Finished'') bs\<rparr>"

section \<open>Notions of the statements\<close>

text \<open>
  The row that a creation with body \<open>b\<close> stores under the id \<open>k\<close> (the VALUES of the
  INSERT), and the row that an update with body \<open>b\<close> makes of a row \<open>r\<close> (the SET
  clause: the fields that are not \<open>undefined\<close>).
\<close>

definition new_row :: "int \<Rightarrow> book_fields \<Rightarrow> row" where
  "new_row k b =
     \<lparr>id_col = k, title_col = bind_text (title b), author_col = bind_text (author b),
      status_col = bind_text (status b), notes_col = bind_text (notes b),
      coverImageUrl_col = bind_text (coverImageUrl b)\<rparr>"

definition assign :: "book_fields \<Rightarrow> row \<Rightarrow> row" where
  "assign b r =
     \<lparr>id_col = id_col r,
      title_col = (if title b = JUndefined then title_col r else bind_text (title b)),
      author_col = (if author b = JUndefined then author_col r else bind_text (author b)),
      status_col = (if status b = JUndefined then status_col r else bind_text (status b)),
      notes_col = (if notes b = JUndefined then notes_col r else bind_text (notes b)),
      coverImageUrl_col =
        (if coverImageUrl b = JUndefined then coverImageUrl_col r
         else bind_text (coverImageUrl b))\<rparr>"

text \<open>A payload without any of the five fields, and a path segment that matches a row.\<close>

definition no_fields :: "book_fields \<Rightarrow> bool" where
  "no_fields b =
     (title b = JUndefined \<and> author b = JUndefined \<and> status b = JUndefined \<and>
      notes b = JUndefined \<and> coverImageUrl b = JUndefined)"

definition hits :: "(string \<Rightarrow> int option) \<Rightarrow> string \<Rightarrow> db \<Rightarrow> bool" where
  "hits conv p d = list_ex (id_matches conv p) (books d)"

text \<open>
  The three statuses that the client offers and sorts by (\<open>App.jsx\<close>, lines 188-190 and
  220-222), a row with a non-empty title and one of these statuses, and a row that
  respects the NOT NULL columns of the table.
\<close>

definition statuses :: "string list" where
  "statuses = [''Want to Read'', ''Reading'', ''Finished'']"

definition titled_with_listed_status :: "row \<Rightarrow> bool" where
  "titled_with_listed_status r =
     ((case title_col r of None \<Rightarrow> False | Some t \<Rightarrow> t \<noteq> []) \<and>
      (case status_col r of None \<Rightarrow> False | Some s \<Rightarrow> s \<in> set statuses))"

definition not_null :: "row \<Rightarrow> bool" where
  "not_null r = (title_col r \<noteq> None \<and> status_col r \<noteq> None)"

text \<open>A field that is missing (absent or \<open>null\<close>) or the empty string.\<close>

definition missing_or_empty :: "jsval \<Rightarrow> bool" where
  "missing_or_empty v = (v = JUndefined \<or> v = JNull \<or> v = JStr [])"

text \<open>
  For the concrete runs: the reading of a path segment that is a string of decimal
  digits, and the requests of a session that adds a book, moves it to another status and
  deletes it.
\<close>

definition digit :: "char \<Rightarrow> int option" where
  "digit c =
     (let n = (of_char c :: nat) in if 48 \<le> n \<and> n \<le> 57 then Some (int n - 48) else None)"

fun decimal_from :: "int \<Rightarrow> string \<Rightarrow> int option" where
  "decimal_from a [] = Some a"
| "decimal_from a (c # cs) =
     (case digit c of None \<Rightarrow> None | Some v \<Rightarrow> decimal_from (10 * a + v) cs)"

definition decimal :: "string \<Rightarrow> int option" where
  "decimal p = (if p = [] then None else decimal_from 0 p)"

definition only :: "jsval \<Rightarrow> jsval \<Rightarrow> book_fields" where
  "only t s =
     \<lparr>title = t, author = JUndefined, status = s, notes = JUndefined,
      coverImageUrl = JUndefined\<rparr>"

definition dune :: book_fields where
  "dune = only (JStr ''Dune'') (JStr ''Want to Read'')"

definition session :: "request list" where
  "session =
     [PostBooks dune, PutBooks ''1'' (only JUndefined (JStr ''Reading'')), GetBooks None,
      DeleteBooks ''1'']"

text \<open>
  For the concrete searches: a volume, a catalogue that answers every URL with \<open>n\<close>
  copies of it, and one that refuses every URL.
\<close>

definition dune_volume :: volume_info where
  "dune_volume =
     \<lparr>info_title = JStr ''Dune'',
      info_authors = Some [''Frank Herbert'', ''Brian Herbert''],
      info_imageLinks = Some \<lparr>thumbnail = JUndefined, smallThumbnail = JStr ''http://books/s.jpg''\<rparr>,
      info_description = JUndefined\<rparr>"

definition catalogue :: "nat \<Rightarrow> string \<Rightarrow> fetch_result" where
  "catalogue n url =
     Resolved \<lparr>resp_status = 200, resp_statusText = ''OK'',
               resp_json = Some \<lparr>items = Some (replicate n \<lparr>volumeInfo = Some dune_volume\<rparr>)\<rparr>\<rparr>"

definition refusing :: "string \<Rightarrow> fetch_result" where
  "refusing url = Resolved \<lparr>resp_status = 403, resp_statusText = ''Forbidden'', resp_json = None\<rparr>"

text \<open>For the concrete view: a cached collection of three books.\<close>

definition shelf :: "book list" where
  "shelf =
     [\<lparr>title = JStr ''Dune'', author = JStr ''Frank Herbert'', status = JStr ''Reading'',
       notes = JNull, coverImageUrl = JNull, book_id = JNum 1\<rparr>,
      \<lparr>title = JStr ''Emma'', author = JStr ''Jane Austen'', status = JStr ''Finished'',
       notes = JNull, coverImageUrl = JNull, book_id = JNum 2\<rparr>,
      \<lparr>title = JStr ''Ulysses'', author = JNull, status = JStr ''Reading'',
       notes = JNull, coverImageUrl = JNull, book_id = JNum 3\<rparr>]"

text \<open>
  A table as AUTOINCREMENT keeps it: the ids increase along the rows, and none exceeds
  \<open>seq\<close>.
\<close>

definition well_numbered :: "db \<Rightarrow> bool" where
  "well_numbered d =
     (sorted_wrt (<) (map id_col (books d)) \<and> list_all (\<lambda>r. id_col r \<le> seq d) (books d))"

section \<open>Facts about the statements and the handlers\<close>

lemma fold_max_init: "(a::int) \<le> fold max xs a"
  by (induction xs arbitrary: a) (auto intro: order_trans [OF max.cobounded2])

lemma fold_max_mem: "x \<in> set xs \<Longrightarrow> (x::int) \<le> fold max xs a"
proof (induction xs arbitrary: a)
  case Nil
  then show ?case by simp
next
  case (Cons y ys)
  show ?case
  proof (cases "x = y")
    case True
    have "max y a \<le> fold max ys (max y a)" by (rule fold_max_init)
    with True show ?thesis by simp
  next
    case False
    with Cons show ?thesis by simp
  qed
qed

lemma next_rowid_fresh: "r \<in> set (books d) \<Longrightarrow> id_col r < next_rowid d"
  using fold_max_mem [of "id_col r" "map id_col (books d)" "seq d"]
  by (simp add: next_rowid_def)

lemma next_rowid_seq: "seq d < next_rowid d"
  using fold_max_init [of "seq d" "map id_col (books d)"]
  by (simp add: next_rowid_def)

lemma truthy_bind: "truthy v \<Longrightarrow> bind_text v \<noteq> None"
  by (cases v) auto

lemma None_bind_text: "None = bind_text v \<longleftrightarrow> v = JUndefined \<or> v = JNull"
  by (cases v) auto

lemma post_books_eq:
  "post_books b d =
     (if \<not> truthy (title b) \<or> \<not> truthy (status b)
        then ((400, Error ''Title and Status are required.''), d)
      else ((201, Created (next_rowid d) b),
            \<lparr>books = books d @ [new_row (next_rowid d) b], seq = next_rowid d\<rparr>))"
  by (auto simp: post_books_def sql_insert_def new_row_def Let_def dest: truthy_bind)

lemma put_updates_Nil: "put_updates b = [] \<longleftrightarrow> no_fields b"
  by (auto simp: put_updates_def no_fields_def)

lemma fold_put_updates:
  "fold set_col (map (\<lambda>(c, v). (c, bind_text v)) (put_updates b)) r = assign b r"
  by (simp add: put_updates_def assign_def)

lemma title_null:
  "(Title, None) \<in> (\<lambda>(c, v). (c, bind_text v)) ` set (put_updates b) \<longleftrightarrow> title b = JNull"
  by (auto simp: put_updates_def None_bind_text image_iff)

lemma status_null:
  "(Status, None) \<in> (\<lambda>(c, v). (c, bind_text v)) ` set (put_updates b) \<longleftrightarrow> status b = JNull"
  by (auto simp: put_updates_def None_bind_text image_iff)

lemma no_hit: "\<not> hits conv p d \<longleftrightarrow> filter (id_matches conv p) (books d) = []"
  by (auto simp: hits_def list_ex_iff filter_empty_conv)

lemma map_no_hit: "\<not> hits conv p d \<Longrightarrow> map (\<lambda>r. if id_matches conv p r then f r else r) (books d) = books d"
  by (rule map_idI) (auto simp: hits_def list_ex_iff)

lemma filter_no_hit: "\<not> hits conv p d \<Longrightarrow> filter (\<lambda>r. \<not> id_matches conv p r) (books d) = books d"
  by (auto simp: hits_def list_ex_iff)

lemma put_books_eq:
  "put_books conv p b d =
     (if no_fields b then ((400, Error ''No fields provided for update.''), d)
      else if \<not> hits conv p d then ((404, Message ''Book not found.''), d)
      else if title b = JNull
        then ((500, Error ''SQLITE_CONSTRAINT: NOT NULL constraint failed: books.title''), d)
      else if status b = JNull
        then ((500, Error ''SQLITE_CONSTRAINT: NOT NULL constraint failed: books.status''), d)
      else ((200, MessageId ''Book updated successfully.'' p),
            d\<lparr>books := map (\<lambda>r. if id_matches conv p r then assign b r else r) (books d)\<rparr>))"
proof (cases "hits conv p d")
  case True
  then have "filter (id_matches conv p) (books d) \<noteq> []"
    using no_hit by blast
  then show ?thesis
    using True
    by (simp add: put_books_def sql_update_def Let_def put_updates_Nil title_null status_null
        fold_put_updates)
next
  case False
  then have "filter (id_matches conv p) (books d) = []"
    using no_hit by blast
  then show ?thesis
    using False
    by (simp add: put_books_def sql_update_def Let_def put_updates_Nil map_no_hit)
qed

lemma delete_books_eq:
  "delete_books conv p d =
     (if \<not> hits conv p d then ((404, Message ''Book not found.''), d)
      else ((200, MessageId ''Book deleted successfully.'' p),
            d\<lparr>books := filter (\<lambda>r. \<not> id_matches conv p r) (books d)\<rparr>))"
proof (cases "hits conv p d")
  case True
  then have "filter (id_matches conv p) (books d) \<noteq> []"
    using no_hit by blast
  then show ?thesis
    using True by (simp add: delete_books_def sql_delete_def)
next
  case False
  then have "filter (id_matches conv p) (books d) = []"
    using no_hit by blast
  then show ?thesis
    using False by (simp add: delete_books_def sql_delete_def filter_no_hit)
qed

lemma get_books_eq:
  "get_books f d =
     ((200, Rows (if qtruthy f then filter (\<lambda>r. status_col r = f) (books d) else books d)), d)"
  by (cases f) (auto simp: get_books_def sql_select_all_def sql_select_status_def)

lemma not_null_new_row: "truthy (title b) \<Longrightarrow> truthy (status b) \<Longrightarrow> not_null (new_row k b)"
  by (simp add: not_null_def new_row_def truthy_bind)

lemma not_null_assign:
  "not_null r \<Longrightarrow> title b \<noteq> JNull \<Longrightarrow> status b \<noteq> JNull \<Longrightarrow> not_null (assign b r)"
  by (cases "title b"; cases "status b") (simp_all add: not_null_def assign_def)

lemma post_books_not_null:
  "list_all not_null (books d) \<Longrightarrow> list_all not_null (books (snd (post_books b d)))"
  by (simp add: post_books_eq not_null_new_row)

lemma put_books_not_null:
  "list_all not_null (books d) \<Longrightarrow> list_all not_null (books (snd (put_books conv p b d)))"
  by (auto simp: put_books_eq list_all_iff not_null_assign)

lemma delete_books_not_null:
  "list_all not_null (books d) \<Longrightarrow> list_all not_null (books (snd (delete_books conv p d)))"
  by (simp add: delete_books_eq list_all_iff)

lemma handle_not_null:
  "list_all not_null (books d) \<Longrightarrow> list_all not_null (books (snd (handle conv req d)))"
  by (cases req)
    (simp_all add: get_books_eq post_books_not_null put_books_not_null delete_books_not_null)

lemma serve_not_null:
  "list_all not_null (books d) \<Longrightarrow> list_all not_null (books (serve conv reqs d))"
  by (induction reqs arbitrary: d) (simp_all add: handle_not_null)

lemma not_truthy_iff:
  "\<not> truthy v \<longleftrightarrow>
     v = JUndefined \<or> v = JNull \<or> v = JBool False \<or> v = JNum 0 \<or> v = JStr []"
  by (cases v) auto

lemma next_rowid_unused: "\<not> list_ex (\<lambda>r. id_col r = next_rowid d) (books d)"
  using next_rowid_fresh [of _ d] by (fastforce simp: list_ex_iff)

lemma filter_next_rowid: "filter (\<lambda>r. id_col r = next_rowid d) (books d) = []"
  using next_rowid_unused [of d] by (simp add: list_ex_iff filter_empty_conv)

lemma hits_iff: "hits conv p d \<longleftrightarrow> (\<exists>r\<in>set (books d). id_matches conv p r)"
  by (simp add: hits_def list_ex_iff)

lemma put_books_200:
  "fst (fst (put_books conv p b d)) = 200 \<Longrightarrow>
     snd (put_books conv p b d) =
       d\<lparr>books := map (\<lambda>r. if id_matches conv p r then assign b r else r) (books d)\<rparr>"
  by (simp add: put_books_eq split: if_splits)

lemma id_col_assign: "id_col (assign b r) = id_col r"
  by (simp add: assign_def)

lemma ids_after_update_comp:
  "map (id_col \<circ> (\<lambda>r. if id_matches conv p r then assign b r else r)) xs = map id_col xs"
  by (induction xs) (simp_all add: id_col_assign)

lemma fold_max_bounded: "\<forall>x\<in>set xs. x \<le> a \<Longrightarrow> fold max xs a = (a::int)"
  by (induction xs) (simp_all add: max_absorb2)

lemma well_numbered_next_rowid: "well_numbered d \<Longrightarrow> next_rowid d = seq d + 1"
  by (simp add: well_numbered_def list_all_iff next_rowid_def fold_max_bounded)

lemma post_books_well_numbered:
  assumes "well_numbered d"
  shows "well_numbered (snd (post_books b d))"
proof (cases "\<not> truthy (title b) \<or> \<not> truthy (status b)")
  case True
  with assms show ?thesis by (simp add: post_books_eq)
next
  case False
  have "\<forall>r\<in>set (books d). id_col r < seq d + 1"
    using assms by (auto simp: well_numbered_def list_all_iff)
  then show ?thesis
    using assms False
    by (auto simp: post_books_eq well_numbered_next_rowid well_numbered_def new_row_def
        sorted_wrt_append list_all_iff)
qed

lemma put_books_well_numbered: "well_numbered d \<Longrightarrow> well_numbered (snd (put_books conv p b d))"
  by (auto simp: put_books_eq well_numbered_def ids_after_update_comp list_all_iff id_col_assign)

lemma sorted_ids_filter:
  "sorted_wrt (<) (map id_col xs) \<Longrightarrow> sorted_wrt (<) (map id_col (filter P xs))"
  by (simp add: sorted_wrt_map sorted_wrt_filter)

lemma delete_books_well_numbered:
  "well_numbered d \<Longrightarrow> well_numbered (snd (delete_books conv p d))"
  by (auto simp: delete_books_eq well_numbered_def sorted_ids_filter list_all_iff)

lemma handle_well_numbered: "well_numbered d \<Longrightarrow> well_numbered (snd (handle conv req d))"
  by (cases req)
    (simp_all add: get_books_eq post_books_well_numbered put_books_well_numbered
      delete_books_well_numbered)

lemma serve_well_numbered: "well_numbered d \<Longrightarrow> well_numbered (serve conv reqs d)"
  by (induction reqs arbitrary: d) (simp_all add: handle_well_numbered)

lemma well_numbered_empty: "well_numbered empty_db"
  by (simp add: well_numbered_def empty_db_def)

lemma one_row_per_id:
  "sorted_wrt (<) (map id_col xs) \<Longrightarrow> length (filter (id_matches conv p) xs) \<le> 1"
proof (induction xs)
  case Nil
  then show ?case by simp
next
  case (Cons x xs)
  show ?case
  proof (cases "id_matches conv p x")
    case True
    then have "\<forall>y\<in>set xs. \<not> id_matches conv p y"
      using Cons.prems by (auto simp: id_matches_def)
    then have "filter (id_matches conv p) xs = []"
      by (simp add: filter_empty_conv)
    with True show ?thesis by simp
  next
    case False
    with Cons show ?thesis by simp
  qed
qed

lemma delete_removes_one:
  assumes "well_numbered d" and "hits conv p d"
  shows "length (books d) = Suc (length (filter (\<lambda>r. \<not> id_matches conv p r) (books d)))"
proof -
  have "length (filter (id_matches conv p) (books d)) \<le> 1"
    using assms(1) one_row_per_id [of "books d" conv p] by (simp add: well_numbered_def)
  moreover have "filter (id_matches conv p) (books d) \<noteq> []"
    using assms(2) no_hit by blast
  ultimately have "length (filter (id_matches conv p) (books d)) = 1"
    by (cases "filter (id_matches conv p) (books d)") simp_all
  then show ?thesis
    using sum_length_filter_compl [of "id_matches conv p" "books d"] by simp
qed

lemma handle_ids_subseq:
  "subseq (map id_col (books (snd (handle conv req d))))
     (map id_col (books d) @ created_id (fst (handle conv req d)))"
proof (cases req)
  case (GetBooks f)
  then show ?thesis by (simp add: get_books_eq)
next
  case (PostBooks b)
  then show ?thesis by (simp add: post_books_eq new_row_def)
next
  case (PutBooks p b)
  then show ?thesis by (simp add: put_books_eq ids_after_update_comp)
next
  case (DeleteBooks p)
  then show ?thesis by (simp add: delete_books_eq subseq_map)
qed

lemma serve_ids_subseq:
  "subseq (map id_col (books (serve conv reqs d))) (map id_col (books d) @ inserted conv reqs d)"
proof (induction reqs arbitrary: d)
  case Nil
  then show ?case by simp
next
  case (Cons req reqs)
  let ?d = "snd (handle conv req d)"
  have "subseq (map id_col (books ?d) @ inserted conv reqs ?d)
      ((map id_col (books d) @ created_id (fst (handle conv req d))) @ inserted conv reqs ?d)"
    by (intro list_emb_append_mono handle_ids_subseq subseq_order.order_refl)
  with Cons.IH [of ?d] show ?case
    by (simp del: handle.simps)
qed

lemma handle_seq_mono: "seq d \<le> seq (snd (handle conv req d))"
  using next_rowid_seq [of d]
  by (cases req) (simp_all add: get_books_eq post_books_eq put_books_eq delete_books_eq)

lemma handle_created_id:
  "k \<in> set (created_id (fst (handle conv req d))) \<Longrightarrow>
     seq d < k \<and> k = seq (snd (handle conv req d))"
  using next_rowid_seq [of d]
  by (cases req)
    (simp_all add: get_books_eq post_books_eq put_books_eq delete_books_eq split: if_splits)

lemma inserted_increasing:
  "sorted_wrt (<) (inserted conv reqs d) \<and> (\<forall>k\<in>set (inserted conv reqs d). seq d < k)"
proof (induction reqs arbitrary: d)
  case Nil
  then show ?case by simp
next
  case (Cons req reqs)
  let ?d = "snd (handle conv req d)"
  have later: "\<forall>k\<in>set (inserted conv reqs ?d). seq ?d < k"
    and sorted: "sorted_wrt (<) (inserted conv reqs ?d)"
    using Cons.IH [of ?d] by simp_all
  have first: "\<forall>k\<in>set (created_id (fst (handle conv req d))). seq d < k \<and> k = seq ?d"
    using handle_created_id by blast
  have one: "sorted_wrt (<) (created_id (fst (handle conv req d)))"
    by (cases "fst (handle conv req d)" rule: created_id.cases) simp_all
  have "\<forall>k\<in>set (inserted conv reqs ?d). seq d < k"
    using later handle_seq_mono [of d conv req] by fastforce
  then show ?case
    using later sorted first one by (auto simp del: handle.simps simp: sorted_wrt_append)
qed

lemma map_items_Some: "map volumeInfo its = map Some vs \<Longrightarrow> map_items its = Some (map map_info vs)"
  by (induction its arbitrary: vs) (auto simp: map_item_def)

lemma map_items_None: "list_ex (\<lambda>it. volumeInfo it = None) its \<Longrightarrow> map_items its = None"
  by (induction its) (auto simp: map_item_def split: option.splits)

lemma search_books_db: "snd (search_books enc fetch key query d) = d"
  by (simp add: search_books_def split: fetch_result.splits option.splits)

lemma search_books_ok:
  assumes "qtruthy query" and "qtruthy key"
    and "fetch (googleBooksApiUrl enc (the query) (the key)) = Resolved response"
    and "ok response" and "resp_json response = Some data"
  shows "search_books enc fetch key query d =
    (case items data of
       None \<Rightarrow> ((200, Results []), d)
     | Some its \<Rightarrow>
         (case map_items its of
            None \<Rightarrow> (search_failed, d)
          | Some bs \<Rightarrow> ((200, Results bs), d)))"
  using assms by (simp add: search_books_def)

lemma mset_three_filters:
  assumes "\<forall>x\<in>set xs. f x = a \<or> f x = b \<or> f x = c" and "a \<noteq> b" and "a \<noteq> c" and "b \<noteq> c"
  shows "mset (filter (\<lambda>x. f x = a) xs) + mset (filter (\<lambda>x. f x = b) xs) +
    mset (filter (\<lambda>x. f x = c) xs) = mset xs"
  using assms(1)
proof (induction xs)
  case Nil
  then show ?case by simp
next
  case (Cons x xs)
  then have "f x = a \<or> f x = b \<or> f x = c" and
    "mset (filter (\<lambda>x. f x = a) xs) + mset (filter (\<lambda>x. f x = b) xs) +
      mset (filter (\<lambda>x. f x = c) xs) = mset xs"
    by simp_all
  then show ?case
    using assms(2-4) by auto
qed

section \<open>The claims\<close>

text \<open>
  C1, as the code has it. Every row of a table that the server has built from the empty
  table has a title and a status that are not NULL, and every request keeps that, on any
  table that has it; a creation stores a row only if the request's title and status are
  truthy. The status is any text: no handler compares it with the three statuses.
\<close>

theorem stored_rows_not_null:
  "list_all not_null (books (serve conv reqs empty_db)) \<and>
   (list_all not_null (books d) \<longrightarrow> list_all not_null (books (snd (handle conv req d)))) \<and>
   (fst (fst (post_books b d)) = 201 \<longrightarrow> truthy (title b) \<and> truthy (status b))"
proof -
  have "list_all not_null (books empty_db)"
    by (simp add: empty_db_def)
  then have "list_all not_null (books (serve conv reqs empty_db))"
    by (rule serve_not_null)
  moreover have "fst (fst (post_books b d)) = 201 \<longrightarrow> truthy (title b) \<and> truthy (status b)"
    by (simp add: post_books_eq)
  ultimately show ?thesis
    using handle_not_null by blast
qed

text \<open>The session, and an update of its book to an empty title and an unlisted status.\<close>

theorem stored_rows_not_null_witness:
  "list_all not_null (books (serve decimal session empty_db)) \<and>
   list_all not_null (books (serve decimal (take 1 session) empty_db)) \<and>
   list_all not_null
     (books (snd (handle decimal (PutBooks ''1'' (only (JStr []) (JStr ''Paused'')))
        (serve decimal (take 1 session) empty_db)))) \<and>
   fst (fst (post_books dune empty_db)) = 201 \<and> truthy (title dune) \<and> truthy (status dune)"
proof -
  have "fst (fst (post_books dune empty_db)) = 201"
    by code_simp
  moreover have "list_all not_null (books (serve decimal (take 1 session) empty_db))"
    by code_simp
  ultimately show ?thesis
    using stored_rows_not_null [of decimal session "serve decimal (take 1 session) empty_db"
        "PutBooks ''1'' (only (JStr []) (JStr ''Paused''))" dune]
      stored_rows_not_null [of decimal "take 1 session" empty_db "GetBooks None" dune]
    by blast
qed

text \<open>
  C1 as stated fails: a creation with the status \<open>Abandoned\<close> is accepted with 201, and
  the table then holds a row whose status is none of the three.
\<close>

theorem stored_status_outside_enumeration:
  "fst (post_books (only (JStr ''Dune'') (JStr ''Abandoned'')) empty_db) =
     (201, Created 1 (only (JStr ''Dune'') (JStr ''Abandoned''))) \<and>
   \<not> list_all titled_with_listed_status
       (books (snd (post_books (only (JStr ''Dune'') (JStr ''Abandoned'')) empty_db)))"
  by code_simp

text \<open>
  C2, as the code has it. A creation answers 400 and leaves the table as it is exactly
  when the title or the status is falsy: absent, \<open>null\<close>, \<open>false\<close>, the number 0 or the
  empty string. Otherwise it appends one row, answers 201 with the fields of the request
  and the id of that row, an id that no row had before, and the list that follows holds
  the old rows and the new one, the only row with that id.
\<close>

theorem create_contract:
  "(\<not> truthy v \<longleftrightarrow>
      v = JUndefined \<or> v = JNull \<or> v = JBool False \<or> v = JNum 0 \<or> v = JStr []) \<and>
   (\<not> truthy (title b) \<or> \<not> truthy (status b) \<longrightarrow>
      post_books b d = ((400, Error ''Title and Status are required.''), d)) \<and>
   (truthy (title b) \<and> truthy (status b) \<longrightarrow>
      fst (post_books b d) = (201, Created (next_rowid d) b) \<and>
      books (snd (post_books b d)) = books d @ [new_row (next_rowid d) b] \<and>
      \<not> list_ex (\<lambda>r. id_col r = next_rowid d) (books d) \<and>
      fst (get_books None (snd (post_books b d))) =
        (200, Rows (books d @ [new_row (next_rowid d) b])) \<and>
      filter (\<lambda>r. id_col r = next_rowid d) (books (snd (post_books b d))) =
        [new_row (next_rowid d) b])"
proof -
  have "filter (\<lambda>r. id_col r = next_rowid d) (books d @ [new_row (next_rowid d) b]) =
      [new_row (next_rowid d) b]"
    by (simp add: filter_next_rowid new_row_def)
  then show ?thesis
    using not_truthy_iff [of v] next_rowid_unused [of d]
    by (simp add: post_books_eq get_books_eq)
qed

text \<open>An empty title on the empty table, and the book of the session after one creation.\<close>

theorem create_contract_witness:
  "\<not> truthy (title (only (JStr []) (JStr ''Reading''))) \<and>
   post_books (only (JStr []) (JStr ''Reading'')) empty_db =
     ((400, Error ''Title and Status are required.''), empty_db) \<and>
   truthy (title dune) \<and> truthy (status dune) \<and>
   fst (post_books dune (serve decimal [PostBooks dune] empty_db)) = (201, Created 2 dune) \<and>
   map id_col (books (snd (post_books dune (serve decimal [PostBooks dune] empty_db)))) = [1, 2] \<and>
   filter (\<lambda>r. id_col r = 2)
       (books (snd (post_books dune (serve decimal [PostBooks dune] empty_db)))) =
     [new_row 2 dune]"
proof -
  let ?d = "serve decimal [PostBooks dune] empty_db"
  have n: "next_rowid ?d = 2"
    by code_simp
  have i: "map id_col (books ?d) = [1]"
    by code_simp
  have f: "\<not> truthy (title (only (JStr []) (JStr ''Reading'')))"
    by (simp add: only_def)
  have t: "truthy (title dune) \<and> truthy (status dune)"
    by (simp add: dune_def only_def)
  have c1: "post_books (only (JStr []) (JStr ''Reading'')) empty_db =
      ((400, Error ''Title and Status are required.''), empty_db)"
    using create_contract [of JNull "only (JStr []) (JStr ''Reading'')" empty_db] f by blast
  have c2: "fst (post_books dune ?d) = (201, Created (next_rowid ?d) dune) \<and>
      books (snd (post_books dune ?d)) = books ?d @ [new_row (next_rowid ?d) dune] \<and>
      filter (\<lambda>r. id_col r = next_rowid ?d) (books (snd (post_books dune ?d))) =
        [new_row (next_rowid ?d) dune]"
    using create_contract [of JNull dune ?d] t by blast
  have m: "map id_col (books (snd (post_books dune ?d))) = [1, 2]"
    using c2 i by (simp add: n new_row_def del: serve.simps)
  show ?thesis
    using c1 c2 [unfolded n] f t m by blast
qed

text \<open>
  C2 as stated fails: the title 0 is present and is not the empty string, and the
  creation answers 400 without storing a row.
\<close>

theorem create_rejects_zero_title:
  "\<not> missing_or_empty (title (only (JNum 0) (JStr ''Reading''))) \<and>
   \<not> missing_or_empty (status (only (JNum 0) (JStr ''Reading''))) \<and>
   post_books (only (JNum 0) (JStr ''Reading'')) empty_db =
     ((400, Error ''Title and Status are required.''), empty_db)"
  by (simp add: only_def missing_or_empty_def post_books_def)

text \<open>
  C3. After an update that answers 200 the table has the same rows in the same places
  with the same ids; in a row that the id matches, each field that the payload supplies
  holds the supplied value and each field that it leaves out holds what it held; a row
  that the id does not match is as it was.
\<close>

theorem update_frame:
  assumes "fst (fst (put_books conv p b d)) = 200"
    and "d' = snd (put_books conv p b d)"
    and "i < length (books d)"
    and "r = books d ! i"
    and "r' = books d' ! i"
  shows "length (books d') = length (books d) \<and> seq d' = seq d \<and> id_col r' = id_col r \<and>
    (\<not> id_matches conv p r \<longrightarrow> r' = r) \<and>
    (id_matches conv p r \<longrightarrow>
       title_col r' = (if title b = JUndefined then title_col r else bind_text (title b)) \<and>
       author_col r' = (if author b = JUndefined then author_col r else bind_text (author b)) \<and>
       status_col r' = (if status b = JUndefined then status_col r else bind_text (status b)) \<and>
       notes_col r' = (if notes b = JUndefined then notes_col r else bind_text (notes b)) \<and>
       coverImageUrl_col r' =
         (if coverImageUrl b = JUndefined then coverImageUrl_col r
          else bind_text (coverImageUrl b)))"
proof -
  have d': "d' = d\<lparr>books := map (\<lambda>r. if id_matches conv p r then assign b r else r) (books d)\<rparr>"
    using assms(1,2) by (simp add: put_books_200)
  then have r': "r' = (if id_matches conv p r then assign b r else r)"
    using assms(3,4,5) by simp
  show ?thesis
    using d' r' by (simp add: assign_def)
qed

text \<open>The update of the first of two books to another status.\<close>

theorem update_frame_witness:
  "fst (fst (put_books decimal ''1'' (only JUndefined (JStr ''Reading''))
       (serve decimal [PostBooks dune, PostBooks dune] empty_db))) = 200 \<and>
   id_matches decimal ''1'' (books (serve decimal [PostBooks dune, PostBooks dune] empty_db) ! 0) \<and>
   status_col (books (snd (put_books decimal ''1'' (only JUndefined (JStr ''Reading''))
       (serve decimal [PostBooks dune, PostBooks dune] empty_db))) ! 0) = Some ''Reading'' \<and>
   title_col (books (snd (put_books decimal ''1'' (only JUndefined (JStr ''Reading''))
       (serve decimal [PostBooks dune, PostBooks dune] empty_db))) ! 0) =
     title_col (books (serve decimal [PostBooks dune, PostBooks dune] empty_db) ! 0) \<and>
   \<not> id_matches decimal ''1'' (books (serve decimal [PostBooks dune, PostBooks dune] empty_db) ! 1) \<and>
   books (snd (put_books decimal ''1'' (only JUndefined (JStr ''Reading''))
       (serve decimal [PostBooks dune, PostBooks dune] empty_db))) ! 1 =
     books (serve decimal [PostBooks dune, PostBooks dune] empty_db) ! 1"
proof -
  let ?d = "serve decimal [PostBooks dune, PostBooks dune] empty_db"
  let ?b = "only JUndefined (JStr ''Reading'')"
  have ok: "fst (fst (put_books decimal ''1'' ?b ?d)) = 200"
    by code_simp
  have len: "length (books ?d) = 2"
    by code_simp
  have m: "id_matches decimal ''1'' (books ?d ! 0)" and n: "\<not> id_matches decimal ''1'' (books ?d ! 1)"
    by code_simp+
  have b: "title ?b = JUndefined \<and> status ?b = JStr ''Reading''"
    by (simp add: only_def)
  have 0: "0 < length (books ?d)" and 1: "1 < length (books ?d)"
    using len by simp_all
  show ?thesis
    using update_frame [OF ok refl 0 refl refl] update_frame [OF ok refl 1 refl refl] ok m n b
    by (simp del: serve.simps)
qed

text \<open>
  C4, as the code has it. An update whose payload has none of the five fields answers
  400, whether or not a row matches the id; an update whose payload has a field answers
  404 when no row matches the id; both leave the table as it is.
\<close>

theorem update_errors:
  "(no_fields b \<longrightarrow>
      put_books conv p b d = ((400, Error ''No fields provided for update.''), d)) \<and>
   (\<not> no_fields b \<and> \<not> hits conv p d \<longrightarrow>
      put_books conv p b d = ((404, Message ''Book not found.''), d))"
  by (simp add: put_books_eq)

text \<open>An empty payload for the book of the session, and a status for an id that no row has.\<close>

theorem update_errors_witness:
  "no_fields (only JUndefined JUndefined) \<and>
   put_books decimal ''1'' (only JUndefined JUndefined) (serve decimal [PostBooks dune] empty_db) =
     ((400, Error ''No fields provided for update.''), serve decimal [PostBooks dune] empty_db) \<and>
   \<not> no_fields (only JUndefined (JStr ''Reading'')) \<and>
   \<not> hits decimal ''2'' (serve decimal [PostBooks dune] empty_db) \<and>
   put_books decimal ''2'' (only JUndefined (JStr ''Reading''))
       (serve decimal [PostBooks dune] empty_db) =
     ((404, Message ''Book not found.''), serve decimal [PostBooks dune] empty_db)"
proof -
  let ?d = "serve decimal [PostBooks dune] empty_db"
  have a: "no_fields (only JUndefined JUndefined)"
    by (simp add: no_fields_def only_def)
  have b: "\<not> no_fields (only JUndefined (JStr ''Reading''))"
    by (simp add: no_fields_def only_def)
  have c: "\<not> hits decimal ''2'' ?d"
    by code_simp
  show ?thesis
    using update_errors [of "only JUndefined JUndefined" decimal "''1''" ?d]
      update_errors [of "only JUndefined (JStr ''Reading'')" decimal "''2''" ?d] a b c
    by blast
qed

text \<open>
  C4 as stated fails: on the empty table no row matches the id 7, and the update with an
  empty payload answers 400, not 404.
\<close>

theorem update_unmatched_empty_payload:
  "\<not> hits decimal ''7'' empty_db \<and>
   fst (fst (put_books decimal ''7'' (only JUndefined JUndefined) empty_db)) = 400"
  by code_simp

text \<open>
  C5. A deletion whose id matches no row answers 404 and leaves the table as it is.
  Otherwise it answers 200 and removes the rows with that id and no other row, so that
  the list that follows is the old one without them and a second deletion of the id
  answers 404; in a table that the server has built from the empty one, the rows removed
  are exactly one.
\<close>

theorem delete_contract:
  "(\<not> hits conv p d \<longrightarrow> delete_books conv p d = ((404, Message ''Book not found.''), d)) \<and>
   (hits conv p d \<longrightarrow>
      fst (delete_books conv p d) = (200, MessageId ''Book deleted successfully.'' p) \<and>
      books (snd (delete_books conv p d)) = filter (\<lambda>r. \<not> id_matches conv p r) (books d) \<and>
      seq (snd (delete_books conv p d)) = seq d \<and>
      fst (get_books None (snd (delete_books conv p d))) =
        (200, Rows (filter (\<lambda>r. \<not> id_matches conv p r) (books d))) \<and>
      fst (fst (delete_books conv p (snd (delete_books conv p d)))) = 404 \<and>
      (d = serve conv reqs empty_db \<longrightarrow>
         length (books d) = Suc (length (books (snd (delete_books conv p d))))))"
proof -
  let ?d' = "d\<lparr>books := filter (\<lambda>r. \<not> id_matches conv p r) (books d)\<rparr>"
  have miss: "\<not> hits conv p d \<longrightarrow> delete_books conv p d = ((404, Message ''Book not found.''), d)"
    by (simp add: delete_books_eq)
  have "\<not> hits conv p ?d'"
    by (simp add: hits_iff)
  then have again: "fst (fst (delete_books conv p ?d')) = 404"
    by (simp add: delete_books_eq [of conv p ?d'])
  have one: "length (books d) = Suc (length (books ?d'))"
    if "hits conv p d" and "d = serve conv reqs empty_db"
  proof -
    have "well_numbered d"
      using that(2) by (simp add: serve_well_numbered well_numbered_empty)
    then show ?thesis
      using delete_removes_one [of d conv p] that(1) by simp
  qed
  have hit: "snd (delete_books conv p d) = ?d' \<and>
      fst (delete_books conv p d) = (200, MessageId ''Book deleted successfully.'' p)"
    if "hits conv p d"
    using that by (simp add: delete_books_eq [of conv p d])
  show ?thesis
  proof (cases "hits conv p d")
    case True
    from hit [OF True] have s: "snd (delete_books conv p d) = ?d'"
      and f: "fst (delete_books conv p d) = (200, MessageId ''Book deleted successfully.'' p)"
      by simp_all
    have g: "fst (get_books None (snd (delete_books conv p d))) =
        (200, Rows (filter (\<lambda>r. \<not> id_matches conv p r) (books d)))"
      by (simp add: s get_books_eq)
    have b: "books (snd (delete_books conv p d)) = filter (\<lambda>r. \<not> id_matches conv p r) (books d)"
      and q: "seq (snd (delete_books conv p d)) = seq d"
      by (simp_all add: s)
    have a: "fst (fst (delete_books conv p (snd (delete_books conv p d)))) = 404"
      using again by (simp only: s)
    have o: "d = serve conv reqs empty_db \<longrightarrow>
        length (books d) = Suc (length (books (snd (delete_books conv p d))))"
    proof
      assume "d = serve conv reqs empty_db"
      from one [OF True this] show
        "length (books d) = Suc (length (books (snd (delete_books conv p d))))"
        by (simp only: s)
    qed
    have "hits conv p d \<longrightarrow>
        fst (delete_books conv p d) = (200, MessageId ''Book deleted successfully.'' p) \<and>
        books (snd (delete_books conv p d)) = filter (\<lambda>r. \<not> id_matches conv p r) (books d) \<and>
        seq (snd (delete_books conv p d)) = seq d \<and>
        fst (get_books None (snd (delete_books conv p d))) =
          (200, Rows (filter (\<lambda>r. \<not> id_matches conv p r) (books d))) \<and>
        fst (fst (delete_books conv p (snd (delete_books conv p d)))) = 404 \<and>
        (d = serve conv reqs empty_db \<longrightarrow>
           length (books d) = Suc (length (books (snd (delete_books conv p d)))))"
      by (intro impI conjI f b q g a o [rule_format])
    with miss show ?thesis
      by (rule conjI)
  next
    case False
    then have "hits conv p d \<longrightarrow>
        fst (delete_books conv p d) = (200, MessageId ''Book deleted successfully.'' p) \<and>
        books (snd (delete_books conv p d)) = filter (\<lambda>r. \<not> id_matches conv p r) (books d) \<and>
        seq (snd (delete_books conv p d)) = seq d \<and>
        fst (get_books None (snd (delete_books conv p d))) =
          (200, Rows (filter (\<lambda>r. \<not> id_matches conv p r) (books d))) \<and>
        fst (fst (delete_books conv p (snd (delete_books conv p d)))) = 404 \<and>
        (d = serve conv reqs empty_db \<longrightarrow>
           length (books d) = Suc (length (books (snd (delete_books conv p d)))))"
      by (simp only: simp_thms)
    with miss show ?thesis
      by (rule conjI)
  qed
qed

text \<open>The deletions of an absent id and of the first of two books.\<close>

theorem delete_contract_witness:
  "\<not> hits decimal ''3'' (serve decimal [PostBooks dune, PostBooks dune] empty_db) \<and>
   fst (fst (delete_books decimal ''3'' (serve decimal [PostBooks dune, PostBooks dune] empty_db)))
     = 404 \<and>
   hits decimal ''1'' (serve decimal [PostBooks dune, PostBooks dune] empty_db) \<and>
   fst (fst (delete_books decimal ''1'' (serve decimal [PostBooks dune, PostBooks dune] empty_db)))
     = 200 \<and>
   length (books (serve decimal [PostBooks dune, PostBooks dune] empty_db)) =
     Suc (length (books (snd (delete_books decimal ''1''
       (serve decimal [PostBooks dune, PostBooks dune] empty_db))))) \<and>
   fst (fst (delete_books decimal ''1'' (snd (delete_books decimal ''1''
       (serve decimal [PostBooks dune, PostBooks dune] empty_db))))) = 404"
proof -
  let ?d = "serve decimal [PostBooks dune, PostBooks dune] empty_db"
  have a: "\<not> hits decimal ''3'' ?d"
    by code_simp
  have b: "hits decimal ''1'' ?d"
    by code_simp
  have "delete_books decimal ''3'' ?d = ((404, Message ''Book not found.''), ?d)"
    using delete_contract [of decimal "''3''" ?d] a by blast
  then have c: "fst (fst (delete_books decimal ''3'' ?d)) = 404"
    by (simp del: serve.simps)
  have "fst (fst (delete_books decimal ''1'' ?d)) = fst (200, MessageId ''Book deleted successfully.'' ''1'')"
    using delete_contract [of decimal "''1''" ?d] b by metis
  then have e: "fst (fst (delete_books decimal ''1'' ?d)) = 200"
    by (simp del: serve.simps)
  show ?thesis
    using delete_contract [of decimal "''1''" ?d "[PostBooks dune, PostBooks dune]"] a b c e
    by blast
qed

text \<open>
  C6, as the code has it. On a table that the server has built from the empty one, a
  list without a filter answers 200 with all the rows, and a list with a filter that is
  not the empty string answers 200 with the rows whose status is the filter, and no
  other, in the order of the table. That order is the order of insertion: the ids of the
  rows are among the ids that the creations returned, in the order of the creations, and
  no creation returned an id twice.
\<close>

theorem list_contract:
  assumes "d = serve conv reqs empty_db"
  shows "get_books None d = ((200, Rows (books d)), d) \<and>
    (s \<noteq> [] \<longrightarrow>
       get_books (Some s) d = ((200, Rows (filter (\<lambda>r. status_col r = Some s) (books d))), d)) \<and>
    subseq (map id_col (books d)) (inserted conv reqs empty_db) \<and>
    sorted_wrt (<) (inserted conv reqs empty_db)"
proof -
  have "subseq (map id_col (books d)) (map id_col (books empty_db) @ inserted conv reqs empty_db)"
    unfolding assms by (rule serve_ids_subseq)
  then have "subseq (map id_col (books d)) (inserted conv reqs empty_db)"
    by (simp add: empty_db_def)
  then show ?thesis
    using inserted_increasing [of conv reqs empty_db] by (simp add: get_books_eq)
qed

text \<open>Two creations, an update of the first book and the deletion of the second.\<close>

theorem list_contract_witness:
  "fst (get_books None
      (serve decimal [PostBooks dune, PostBooks dune,
         PutBooks ''1'' (only JUndefined (JStr ''Reading'')), DeleteBooks ''2''] empty_db)) =
     (200, Rows [\<lparr>id_col = 1, title_col = Some ''Dune'', author_col = None,
        status_col = Some ''Reading'', notes_col = None, coverImageUrl_col = None\<rparr>]) \<and>
   fst (get_books (Some ''Finished'')
      (serve decimal [PostBooks dune, PostBooks dune,
         PutBooks ''1'' (only JUndefined (JStr ''Reading'')), DeleteBooks ''2''] empty_db)) =
     (200, Rows []) \<and>
   inserted decimal [PostBooks dune, PostBooks dune,
         PutBooks ''1'' (only JUndefined (JStr ''Reading'')), DeleteBooks ''2''] empty_db = [1, 2] \<and>
   subseq [1] [1, 2 :: int]"
proof -
  let ?reqs = "[PostBooks dune, PostBooks dune,
         PutBooks ''1'' (only JUndefined (JStr ''Reading'')), DeleteBooks ''2'']"
  let ?d = "serve decimal ?reqs empty_db"
  have b: "books ?d = [\<lparr>id_col = 1, title_col = Some ''Dune'', author_col = None,
        status_col = Some ''Reading'', notes_col = None, coverImageUrl_col = None\<rparr>]"
    by code_simp
  have i: "inserted decimal ?reqs empty_db = [1, 2]"
    by code_simp
  note c = list_contract [OF refl, of decimal ?reqs "''Finished''"]
  have "fst (get_books None ?d) = (200, Rows (books ?d))"
    using c by (simp del: serve.simps)
  moreover have "fst (get_books (Some ''Finished'') ?d) =
      (200, Rows (filter (\<lambda>r. status_col r = Some ''Finished'') (books ?d)))"
    using c by (simp del: serve.simps)
  moreover have "subseq (map id_col (books ?d)) (inserted decimal ?reqs empty_db)"
    using c by blast
  ultimately show ?thesis
    by (simp only: b i) simp
qed

text \<open>
  C6 as stated fails: with the empty string as filter the list holds the book of the
  session, whose status is not the empty string.
\<close>

theorem list_empty_filter_not_exact:
  "fst (get_books (Some []) (serve decimal [PostBooks dune] empty_db)) =
     (200, Rows [new_row 1 dune]) \<and>
   status_col (new_row 1 dune) \<noteq> Some []"
  by code_simp

text \<open>
  C7, as the code has it. When the query and the key are there and the catalogue answers
  with a success status and a JSON body, the search asks for at most five results
  (\<open>maxResults=5\<close> ends the URL) and answers 200 with one result for each item of the
  body, in the order of the items, so with at most five when the catalogue sends at most
  five; without \<open>items\<close> it answers 200 with no result, and with an item that has no
  \<open>volumeInfo\<close> it answers 500. A result has the title of the item, or \<open>N/A\<close> when that
  is absent or empty; the authors joined by a comma and a space, or \<open>N/A\<close> without
  authors; the thumbnail, or else the small thumbnail, of the image links, or \<open>null\<close>
  without image links; and the description, or a fixed text when that is absent or empty.
\<close>

theorem search_mapping:
  assumes "qtruthy query" and "qtruthy key"
    and "fetch (googleBooksApiUrl enc (the query) (the key)) = Resolved response"
    and "ok response" and "resp_json response = Some data"
  shows "(items data = None \<longrightarrow> search_books enc fetch key query d = ((200, Results []), d)) \<and>
    (items data = Some its \<and> map volumeInfo its = map Some vs \<longrightarrow>
       search_books enc fetch key query d = ((200, Results (map map_info vs)), d) \<and>
       length (map map_info vs) = length its \<and>
       (length its \<le> 5 \<longrightarrow> length (map map_info vs) \<le> 5)) \<and>
    (items data = Some its \<and> list_ex (\<lambda>it. volumeInfo it = None) its \<longrightarrow>
       search_books enc fetch key query d = (search_failed, d)) \<and>
    res_title (map_info v) = (if truthy (info_title v) then info_title v else JStr ''N/A'') \<and>
    res_author (map_info v) =
      (case info_authors v of Some a \<Rightarrow> join '', '' a | None \<Rightarrow> ''N/A'') \<and>
    res_coverImageUrl (map_info v) =
      (case info_imageLinks v of
         None \<Rightarrow> JNull
       | Some l \<Rightarrow> if truthy (thumbnail l) then thumbnail l else smallThumbnail l) \<and>
    res_description (map_info v) =
      (if truthy (info_description v) then info_description v
       else JStr ''No description available.'') \<and>
    googleBooksApiUrl enc (the query) (the key) =
      ''https://www.googleapis.com/books/v1/volumes?q='' @ enc (the query) @ ''&key='' @
      the key @ ''&maxResults=5''"
proof -
  have len: "length vs = length its" if "map volumeInfo its = map Some vs"
    using that by (metis length_map)
  have fields: "res_title (map_info v) = (if truthy (info_title v) then info_title v else JStr ''N/A'') \<and>
    res_author (map_info v) =
      (case info_authors v of Some a \<Rightarrow> join '', '' a | None \<Rightarrow> ''N/A'') \<and>
    res_coverImageUrl (map_info v) =
      (case info_imageLinks v of
         None \<Rightarrow> JNull
       | Some l \<Rightarrow> if truthy (thumbnail l) then thumbnail l else smallThumbnail l) \<and>
    res_description (map_info v) =
      (if truthy (info_description v) then info_description v
       else JStr ''No description available.'')"
    by (simp add: map_info_def js_or_def split: option.splits)
  have url: "googleBooksApiUrl enc (the query) (the key) =
      ''https://www.googleapis.com/books/v1/volumes?q='' @ enc (the query) @ ''&key='' @
      the key @ ''&maxResults=5''"
    by (simp only: googleBooksApiUrl_def)
  note eq = search_books_ok [of query key fetch enc response data d, OF assms]
  have none: "items data = None \<longrightarrow> search_books enc fetch key query d = ((200, Results []), d)"
    by (simp add: eq)
  have some: "items data = Some its \<and> map volumeInfo its = map Some vs \<longrightarrow>
       search_books enc fetch key query d = ((200, Results (map map_info vs)), d) \<and>
       length (map map_info vs) = length its \<and>
       (length its \<le> 5 \<longrightarrow> length (map map_info vs) \<le> 5)"
    using len by (simp add: eq map_items_Some)
  have throw: "items data = Some its \<and> list_ex (\<lambda>it. volumeInfo it = None) its \<longrightarrow>
       search_books enc fetch key query d = (search_failed, d)"
    by (simp add: eq map_items_None)
  from none some throw fields url show ?thesis
    by (intro conjI) (rule none some throw url | simp only: fields)+
qed

text \<open>A catalogue that answers with two volumes.\<close>

theorem search_mapping_witness:
  "qtruthy (Some ''dune'') \<and> qtruthy (Some ''k'') \<and>
   search_books (\<lambda>q. q) (catalogue 2) (Some ''k'') (Some ''dune'') empty_db =
     ((200, Results
        [\<lparr>res_title = JStr ''Dune'', res_author = ''Frank Herbert, Brian Herbert'',
          res_coverImageUrl = JStr ''http://books/s.jpg'',
          res_description = JStr ''No description available.''\<rparr>,
         \<lparr>res_title = JStr ''Dune'', res_author = ''Frank Herbert, Brian Herbert'',
          res_coverImageUrl = JStr ''http://books/s.jpg'',
          res_description = JStr ''No description available.''\<rparr>]), empty_db)"
proof -
  let ?response = "\<lparr>resp_status = 200, resp_statusText = ''OK'',
      resp_json = Some \<lparr>items = Some (replicate 2 \<lparr>volumeInfo = Some dune_volume\<rparr>)\<rparr>\<rparr>"
  let ?data = "\<lparr>items = Some (replicate 2 \<lparr>volumeInfo = Some dune_volume\<rparr>)\<rparr>"
  have q: "qtruthy (Some ''dune'')" and k: "qtruthy (Some ''k'')"
    by simp_all
  have f: "catalogue 2 (googleBooksApiUrl (\<lambda>q. q) (the (Some ''dune'')) (the (Some ''k''))) =
      Resolved ?response"
    by (simp only: catalogue_def)
  have o: "ok ?response"
    by (simp add: ok_def)
  have j: "resp_json ?response = Some ?data"
    by simp
  have i: "items ?data = Some (replicate 2 \<lparr>volumeInfo = Some dune_volume\<rparr>) \<and>
      map volumeInfo (replicate 2 \<lparr>volumeInfo = Some dune_volume\<rparr>) =
        map Some (replicate 2 dune_volume)"
    by simp
  have m: "map map_info (replicate 2 dune_volume) =
      [\<lparr>res_title = JStr ''Dune'', res_author = ''Frank Herbert, Brian Herbert'',
          res_coverImageUrl = JStr ''http://books/s.jpg'',
          res_description = JStr ''No description available.''\<rparr>,
         \<lparr>res_title = JStr ''Dune'', res_author = ''Frank Herbert, Brian Herbert'',
          res_coverImageUrl = JStr ''http://books/s.jpg'',
          res_description = JStr ''No description available.''\<rparr>]"
    by code_simp
  have "search_books (\<lambda>q. q) (catalogue 2) (Some ''k'') (Some ''dune'') empty_db =
      ((200, Results (map map_info (replicate 2 dune_volume))), empty_db)"
    using search_mapping [of "Some ''dune''" "Some ''k''" "catalogue 2" "\<lambda>q. q" ?response ?data
        empty_db "replicate 2 \<lparr>volumeInfo = Some dune_volume\<rparr>" "replicate 2 dune_volume"
        dune_volume, OF q k f o j] i
    by blast
  then show ?thesis
    using q k by (simp only: m)
qed

text \<open>
  C7 as stated fails: when the catalogue answers with six volumes, the search answers
  with six results.
\<close>

theorem search_six_results:
  "fst (search_books (\<lambda>q. q) (catalogue 6) (Some ''k'') (Some ''dune'') empty_db) =
     (200, Results (replicate 6 (map_info dune_volume))) \<and>
   length (replicate 6 (map_info dune_volume)) = 6"
  by code_simp

text \<open>
  C8, as the code has it. A search without a query, or with the empty one, answers 400.
  With a query, a search on a server without a key answers 500 with a message about the
  configuration. With a query and a key, a search answers 500 when the call to the
  catalogue throws or the body of a success is no JSON, and when the catalogue answers
  with another status than a success it answers with that status. No search changes the
  table.
\<close>

theorem search_errors:
  "(\<not> qtruthy query \<longrightarrow>
      fst (search_books enc fetch key query d) = (400, Error ''Search query (q) is required.'')) \<and>
   (qtruthy query \<and> \<not> qtruthy key \<longrightarrow>
      fst (search_books enc fetch key query d) =
        (500, Error (''Google Books API key is not configured on the server. '' @
                     ''Please check backend setup.''))) \<and>
   (qtruthy query \<and> qtruthy key \<and>
    fetch (googleBooksApiUrl enc (the query) (the key)) = Rejected msg \<longrightarrow>
      fst (fst (search_books enc fetch key query d)) = 500) \<and>
   (qtruthy query \<and> qtruthy key \<and>
    fetch (googleBooksApiUrl enc (the query) (the key)) = Resolved response \<and> \<not> ok response \<longrightarrow>
      fst (search_books enc fetch key query d) =
        (resp_status response,
         Error (''Google Books API error: '' @ resp_statusText response @
                ''. Check server console for details.''))) \<and>
   (qtruthy query \<and> qtruthy key \<and>
    fetch (googleBooksApiUrl enc (the query) (the key)) = Resolved response \<and> ok response \<and>
    resp_json response = None \<longrightarrow>
      fst (fst (search_books enc fetch key query d)) = 500) \<and>
   snd (search_books enc fetch key query d) = d"
  by (simp add: search_books_db) (simp add: search_books_def search_failed_def)

text \<open>No query, no key, and a catalogue that refuses.\<close>

theorem search_errors_witness:
  "\<not> qtruthy None \<and>
   fst (fst (search_books (\<lambda>q. q) refusing None None empty_db)) = 400 \<and>
   qtruthy (Some ''dune'') \<and> \<not> qtruthy (Some []) \<and>
   fst (fst (search_books (\<lambda>q. q) refusing (Some []) (Some ''dune'') empty_db)) = 500 \<and>
   qtruthy (Some ''k'') \<and>
   \<not> ok \<lparr>resp_status = 403, resp_statusText = ''Forbidden'', resp_json = None\<rparr> \<and>
   fst (fst (search_books (\<lambda>q. q) refusing (Some ''k'') (Some ''dune'') empty_db)) = 403 \<and>
   snd (search_books (\<lambda>q. q) refusing (Some ''k'') (Some ''dune'') empty_db) = empty_db"
proof -
  let ?r = "\<lparr>resp_status = 403, resp_statusText = ''Forbidden'', resp_json = None\<rparr>"
  have a: "\<not> qtruthy None" and b: "qtruthy (Some ''dune'')" and c: "\<not> qtruthy (Some [])"
    and e: "qtruthy (Some ''k'')"
    by simp_all
  have o: "\<not> ok ?r"
    by (simp add: ok_def)
  have f: "refusing (googleBooksApiUrl (\<lambda>q. q) (the (Some ''dune'')) (the (Some ''k''))) =
      Resolved ?r"
    by (simp only: refusing_def)
  have 1: "fst (fst (search_books (\<lambda>q. q) refusing None None empty_db)) = 400"
    using search_errors [of None "\<lambda>q. q" refusing None empty_db] a by simp
  have 2: "fst (fst (search_books (\<lambda>q. q) refusing (Some []) (Some ''dune'') empty_db)) = 500"
    using search_errors [of "Some ''dune''" "\<lambda>q. q" refusing "Some []" empty_db] b c by simp
  have 3: "fst (fst (search_books (\<lambda>q. q) refusing (Some ''k'') (Some ''dune'') empty_db)) = 403
      \<and> snd (search_books (\<lambda>q. q) refusing (Some ''k'') (Some ''dune'') empty_db) = empty_db"
    using search_errors [of "Some ''dune''" "\<lambda>q. q" refusing "Some ''k''" empty_db _ ?r] b e o f
    by simp
  show ?thesis
    using a b c e o 1 2 3 by blast
qed

text \<open>
  C8 as stated fails: when the catalogue answers 403, the search answers 403, not 500.
\<close>

theorem search_passes_upstream_status:
  "fst (fst (search_books (\<lambda>q. q) refusing (Some ''k'') (Some ''dune'') empty_db)) = 403"
  by code_simp

text \<open>
  C9. When the status of every book of the cached collection is one of the three, the
  three buckets together hold the books of the collection, each as often as the
  collection holds it, and no book is in two buckets; every bucket holds books of the
  collection as they are, in the order of the collection, and the collection is the
  argument of the derivation, which returns the buckets only.
\<close>

theorem categorized_partition:
  assumes "\<forall>book\<in>set bs. status book \<in> JStr ` set statuses"
  shows "mset (want_to_read (categorizedBooks bs)) + mset (reading (categorizedBooks bs)) +
      mset (finished (categorizedBooks bs)) = mset bs \<and>
    set (want_to_read (categorizedBooks bs)) \<inter> set (reading (categorizedBooks bs)) = {} \<and>
    set (want_to_read (categorizedBooks bs)) \<inter> set (finished (categorizedBooks bs)) = {} \<and>
    set (reading (categorizedBooks bs)) \<inter> set (finished (categorizedBooks bs)) = {} \<and>
    subseq (want_to_read (categorizedBooks bs)) bs \<and>
    subseq (reading (categorizedBooks bs)) bs \<and>
    subseq (finished (categorizedBooks bs)) bs"
proof -
  have "\<forall>book\<in>set bs. status book = JStr ''Want to Read'' \<or> status book = JStr ''Reading'' \<or>
      status book = JStr ''Finished''"
    using assms by (auto simp: statuses_def)
  then have "mset (filter (\<lambda>book. status book = JStr ''Want to Read'') bs) +
      mset (filter (\<lambda>book. status book = JStr ''Reading'') bs) +
      mset (filter (\<lambda>book. status book = JStr ''Finished'') bs) = mset bs"
    by (rule mset_three_filters) simp_all
  then show ?thesis
    by (auto simp: categorizedBooks_def)
qed

text \<open>The collection of three books: two are being read, one is finished.\<close>

theorem categorized_partition_witness:
  "list_all (\<lambda>book. status book \<in> JStr ` set statuses) shelf \<and>
   mset (want_to_read (categorizedBooks shelf)) + mset (reading (categorizedBooks shelf)) +
     mset (finished (categorizedBooks shelf)) = mset shelf \<and>
   map book_id (reading (categorizedBooks shelf)) = [JNum 1, JNum 3] \<and>
   map book_id (finished (categorizedBooks shelf)) = [JNum 2] \<and>
   want_to_read (categorizedBooks shelf) = []"
proof -
  have h: "\<forall>book\<in>set shelf. status book \<in> JStr ` set statuses"
    by (simp add: shelf_def statuses_def)
  have c: "map book_id (reading (categorizedBooks shelf)) = [JNum 1, JNum 3] \<and>
      map book_id (finished (categorizedBooks shelf)) = [JNum 2] \<and>
      want_to_read (categorizedBooks shelf) = []"
    by (simp add: shelf_def categorizedBooks_def)
  have l: "list_all (\<lambda>book. status book \<in> JStr ` set statuses) shelf"
    using h by (simp only: list_all_iff)
  show ?thesis
    using categorized_partition [OF h] l c by blast
qed

text \<open>
  C10. A list request whose status filter is present but the empty string applies no
  filter: on every table it answers 200 with all the rows, as the request without a
  filter does.
\<close>

theorem list_empty_filter_unfiltered:
  "get_books (Some []) d = ((200, Rows (books d)), d) \<and> get_books (Some []) d = get_books None d"
  by (simp add: get_books_def sql_select_all_def)

end
